theory Spec2Isabelle
  imports Complex_Main
begin

section \<open>Resume builder: photo normaliser and document assembler\<close>

text \<open>
  A shallow embedding of \<^verbatim>\<open>main_file.py\<close>: \<^verbatim>\<open>process_passport_photo\<close> (crop a portrait
  around the first detected face, or centre-crop, and resize it) and
  \<^verbatim>\<open>generate_resume\<close> (lay a profile dictionary out as a sequence of document blocks).

  The file system is explicit state, exceptions are values of a sum type, and the two
  external libraries appear only through what the program observes of them: the face
  detector is a function argument, images carry their dimensions only.
\<close>

subsection \<open>Images, files, exceptions\<close>

text \<open>
  An image as the program sees it through \<^verbatim>\<open>img.shape\<close>: \<open>rows\<close> is \<^verbatim>\<open>shape[0]\<close> (height),
  \<open>cols\<close> is \<^verbatim>\<open>shape[1]\<close> (width). Pixel values are never inspected by the program itself.
\<close>

record image =
  rows :: nat
  cols :: nat

datatype style = Normal | ListBullet

datatype photo_run = Picture image | RunText string

text \<open>
  The blocks \<^verbatim>\<open>python-docx\<close> is asked to append. \<open>HeaderTable name contacts photo\<close> is
  the one-row, two-column table of the header: the bold 24pt name run and the contact
  paragraphs on the left, the photo run on the right. \<open>Spacer\<close> is \<^verbatim>\<open>doc.add_paragraph()\<close>,
  \<open>Heading\<close> a level-1 heading with the bottom border, \<open>TableGrid\<close> a table in style
  'Table Grid' whose cells are pairs of text and boldness.
\<close>

datatype block =
    HeaderTable string "string list" photo_run
  | Spacer
  | Heading string
  | Paragraph string style
  | TableGrid "(string \<times> bool) list list"

datatype stored = ImageFile image | DocFile "block list" | OtherFile

type_synonym filesystem = "string \<Rightarrow> stored option"

datatype exn = CvError | ImageError | IndexError | TypeError | AttributeError

type_synonym box = "int \<times> int \<times> int \<times> int"

definition path_exists :: "filesystem \<Rightarrow> string \<Rightarrow> bool" where
  "path_exists fs p = (fs p \<noteq> None)"

text \<open>\<^verbatim>\<open>cv2.imread\<close>: the decoded image, or \<^verbatim>\<open>None\<close> when the path holds no decodable image.\<close>

definition imread :: "filesystem \<Rightarrow> string \<Rightarrow> image option" where
  "imread fs p = (case fs p of Some (ImageFile img) \<Rightarrow> Some img | _ \<Rightarrow> None)"

subsection \<open>Cropping and resizing\<close>

text \<open>
  \<^verbatim>\<open>int(n * 0.5)\<close>, \<^verbatim>\<open>int(n * 0.3)\<close>, \<^verbatim>\<open>int(n * 0.25)\<close>, \<^verbatim>\<open>int(n * 0.75)\<close>: the product with
  the fraction \<open>p / q\<close>, truncated towards zero. For the magnitudes of pixel coordinates the
  double-precision product truncates to the same integer as the exact one.
\<close>

definition int_scale :: "int \<Rightarrow> int \<Rightarrow> int \<Rightarrow> int" where
  "int_scale n p q = (if 0 \<le> n then (n * p) div q else - ((- n * p) div q))"

text \<open>One bound of a Python slice over an axis of length \<open>n\<close>: negative bounds count
  from the end, and every bound is clipped to the axis.\<close>

definition slice_bound :: "nat \<Rightarrow> int \<Rightarrow> int" where
  "slice_bound n i = (if i < 0 then max 0 (i + int n) else min i (int n))"

definition slice_len :: "nat \<Rightarrow> int \<Rightarrow> int \<Rightarrow> nat" where
  "slice_len n a b = nat (slice_bound n b - slice_bound n a)"

text \<open>\<^verbatim>\<open>img[y1:y2, x1:x2]\<close>\<close>

definition crop :: "image \<Rightarrow> int \<times> int \<times> int \<times> int \<Rightarrow> image" where
  "crop img r = (case r of (y1, y2, x1, x2) \<Rightarrow>
     \<lparr>rows = slice_len (rows img) y1 y2, cols = slice_len (cols img) x1 x2\<rparr>)"

text \<open>\<^verbatim>\<open>cv2.resize(src, (width, height))\<close> raises on an empty source.\<close>

definition resize :: "image \<Rightarrow> nat \<times> nat \<Rightarrow> exn + image" where
  "resize src dsize =
     (if rows src = 0 \<or> cols src = 0 then Inl CvError
      else Inr \<lparr>rows = snd dsize, cols = fst dsize\<rparr>)"

text \<open>The rectangle \<open>(y1, y2, x1, x2)\<close> of the face branch, lines 45 to 54.\<close>

definition face_rect :: "image \<Rightarrow> box \<Rightarrow> int \<times> int \<times> int \<times> int" where
  "face_rect img b = (case b of (x, y, w, h) \<Rightarrow>
     let pad_top = int_scale h 1 2;
         pad_bottom = int_scale h 1 2;
         pad_left = int_scale w 3 10;
         pad_right = int_scale w 3 10;
         y1 = max 0 (y - pad_top);
         y2 = min (int (rows img)) (y + h + pad_bottom);
         x1 = max 0 (x - pad_left);
         x2 = min (int (cols img)) (x + w + pad_right)
     in (y1, y2, x1, x2))"

text \<open>The rectangle of the fallback branch, lines 58 and 59.\<close>

definition fallback_rect :: "image \<Rightarrow> int \<times> int \<times> int \<times> int" where
  "fallback_rect img =
     (let h = int (rows img); w = int (cols img)
      in (0, h, int_scale w 1 4, int_scale w 3 4))"

definition crop_rect :: "box list \<Rightarrow> image \<Rightarrow> int \<times> int \<times> int \<times> int" where
  "crop_rect faces img =
     (if length faces > 0 then face_rect img (faces ! 0) else fallback_rect img)"

text \<open>
  \<^verbatim>\<open>process_passport_photo(input_path, output_path)\<close>. \<open>detect\<close> stands for
  \<^verbatim>\<open>detectMultiScale\<close> with its fixed parameters. The result pairs what the call returns
  (or the exception it raises) with the file system it leaves behind. \<^verbatim>\<open>cv2.imwrite\<close> is
  taken to write its file, as it does at the one path the program passes,
  \<^verbatim>\<open>temp_passport_photo.jpg\<close> in a writable working directory; an output name without an
  image writer, or a target that cannot be written, is outside this model.
\<close>

definition process_passport_photo ::
  "(image \<Rightarrow> box list) \<Rightarrow> string \<Rightarrow> string \<Rightarrow> filesystem \<Rightarrow> (exn + bool) \<times> filesystem" where
  "process_passport_photo detect input_path output_path fs =
     (if \<not> path_exists fs input_path then (Inr False, fs)
      else case imread fs input_path of
        None \<Rightarrow> (Inr False, fs)
      | Some img \<Rightarrow>
          (let faces = detect img;
               crop_img = crop img (crop_rect faces img)
           in case resize crop_img (413, 531) of
                Inl e \<Rightarrow> (Inl e, fs)
              | Inr final_img \<Rightarrow> (Inr True, fs(output_path \<mapsto> ImageFile final_img))))"

text \<open>What the detector returns: a box of positive size inside the image.\<close>

definition box_in_image :: "image \<Rightarrow> box \<Rightarrow> bool" where
  "box_in_image img b = (case b of (x, y, w, h) \<Rightarrow>
     0 \<le> x \<and> 0 \<le> y \<and> 0 < w \<and> 0 < h \<and> x + w \<le> int (cols img) \<and> y + h \<le> int (rows img))"

definition passport_size :: image where
  "passport_size = \<lparr>rows = 531, cols = 413\<rparr>"

subsection \<open>Profile records and text\<close>

text \<open>
  The values \<^verbatim>\<open>main\<close> stores in the profile dictionary: a string, or a list of rows of
  strings. A dictionary is its list of items in insertion order; \<^verbatim>\<open>.get\<close> is a lookup
  with a default. Strings stand for ASCII text.
\<close>

datatype pyval = PyStr string | PyList "string list list"

type_synonym profile = "(string \<times> pyval) list"

definition dict_get :: "profile \<Rightarrow> string \<Rightarrow> pyval \<Rightarrow> pyval" where
  "dict_get d k dflt = (case map_of d k of None \<Rightarrow> dflt | Some v \<Rightarrow> v)"

text \<open>\<^verbatim>\<open>not content\<close>\<close>

fun falsy :: "pyval \<Rightarrow> bool" where
  "falsy (PyStr s) = (s = [])"
| "falsy (PyList rs) = (rs = [])"

text \<open>\<^verbatim>\<open>isinstance(content, list)\<close>\<close>

fun is_list :: "pyval \<Rightarrow> bool" where
  "is_list (PyStr s) = False"
| "is_list (PyList rs) = True"

fun list_items :: "pyval \<Rightarrow> string list list" where
  "list_items (PyStr s) = []"
| "list_items (PyList rs) = rs"

definition upper_char :: "char \<Rightarrow> char" where
  "upper_char c =
     (let n = (of_char c :: nat) in if 97 \<le> n \<and> n \<le> 122 then char_of (n - 32) else c)"

text \<open>\<^verbatim>\<open>str.upper\<close>\<close>

definition upper :: "string \<Rightarrow> string" where
  "upper s = map upper_char s"

text \<open>\<^verbatim>\<open>s.replace(' ', '_')\<close>\<close>

definition replace_spaces :: "string \<Rightarrow> string" where
  "replace_spaces s = map (\<lambda>c. if c = CHR '' '' then CHR ''_'' else c) s"

definition hex_digit :: "nat \<Rightarrow> char" where
  "hex_digit n = ''0123456789abcdef'' ! n"

text \<open>How \<^verbatim>\<open>repr\<close> writes one character of a string delimited by \<open>quote\<close>.\<close>

definition repr_char :: "char \<Rightarrow> char \<Rightarrow> string" where
  "repr_char quote c =
     (let n = (of_char c :: nat) in
      if c = quote \<or> c = CHR 0x5C then [CHR 0x5C, c]
      else if c = CHR 0x09 then [CHR 0x5C, CHR ''t'']
      else if c = CHR 0x0A then [CHR 0x5C, CHR ''n'']
      else if c = CHR 0x0D then [CHR 0x5C, CHR ''r'']
      else if n < 32 \<or> n = 127 then [CHR 0x5C, CHR ''x'', hex_digit (n div 16), hex_digit (n mod 16)]
      else [c])"

text \<open>\<^verbatim>\<open>repr\<close> of a string: single quotes, unless the string holds a single quote and
  no double quote.\<close>

definition py_repr :: "string \<Rightarrow> string" where
  "py_repr s =
     (let quote = (if CHR 0x27 \<in> set s \<and> CHR 0x22 \<notin> set s then CHR 0x22 else CHR 0x27)
      in [quote] @ concat (map (repr_char quote) s) @ [quote])"

text \<open>\<^verbatim>\<open>sep.join(xs)\<close>\<close>

fun join :: "string \<Rightarrow> string list \<Rightarrow> string" where
  "join sep [] = []"
| "join sep [x] = x"
| "join sep (x # y # ys) = x @ sep @ join sep (y # ys)"

definition repr_list :: "string list \<Rightarrow> string" where
  "repr_list xs = ''['' @ join '', '' xs @ '']''"

text \<open>\<^verbatim>\<open>str(content)\<close>, which is also what \<^verbatim>\<open>f"{val}"\<close> yields.\<close>

fun py_str :: "pyval \<Rightarrow> string" where
  "py_str (PyStr s) = s"
| "py_str (PyList rs) = repr_list (map (\<lambda>r. repr_list (map py_repr r)) rs)"

subsection \<open>The document assembler\<close>

definition contact_keys :: "string list" where
  "contact_keys = [''Email'', ''Phone'', ''Address'', ''LinkedIn'']"

definition ignore_keys :: "string list" where
  "ignore_keys = [''Full Name'', ''Email'', ''Phone'', ''Address'', ''LinkedIn'', ''Photo Path'']"

definition headers :: "string list" where
  "headers = [''Degree/Course'', ''Institution'', ''Year'', ''Grade/CGPA'']"

definition processed_photo :: string where
  "processed_photo = ''temp_passport_photo.jpg''"

text \<open>
  \<^verbatim>\<open>name_para.add_run(personal_info.get("Full Name", ""))\<close>: \<^verbatim>\<open>python-docx\<close> sets the
  run's text only when the argument is truthy, and then walks it character by character,
  which fails on a list of rows.
\<close>

definition name_run :: "profile \<Rightarrow> exn + string" where
  "name_run personal_info =
     (case dict_get personal_info ''Full Name'' (PyStr []) of
        PyStr s \<Rightarrow> Inr s
      | PyList rs \<Rightarrow> (if rs = [] then Inr [] else Inl TypeError))"

text \<open>The loop over the contact keys, lines 83 to 86: the paragraphs it adds, in order.\<close>

fun contact_paragraphs :: "profile \<Rightarrow> string list \<Rightarrow> string list" where
  "contact_paragraphs personal_info [] = []"
| "contact_paragraphs personal_info (key # keys) =
     (let val = dict_get personal_info key (PyStr ''NA'')
      in (if val \<noteq> PyStr ''NA'' then [py_str val] else [])
           @ contact_paragraphs personal_info keys)"

text \<open>\<^verbatim>\<open>run.add_picture(path, ...)\<close> reads the image file; \<open>embeddable\<close> says which images
  the document writer accepts.\<close>

definition add_picture :: "(image \<Rightarrow> bool) \<Rightarrow> filesystem \<Rightarrow> string \<Rightarrow> exn + photo_run" where
  "add_picture embeddable fs p =
     (case imread fs p of
        None \<Rightarrow> Inl ImageError
      | Some img \<Rightarrow> (if embeddable img then Inr (Picture img) else Inl ImageError))"

text \<open>The photo cell, lines 94 to 100: the run it holds and the file system afterwards.\<close>

definition photo_cell ::
  "(image \<Rightarrow> box list) \<Rightarrow> (image \<Rightarrow> bool) \<Rightarrow> string option \<Rightarrow> filesystem
     \<Rightarrow> (exn + photo_run) \<times> filesystem" where
  "photo_cell detect embeddable photo_path fs =
     (case photo_path of
        None \<Rightarrow> (Inr (RunText ''[No Photo]''), fs)
      | Some p \<Rightarrow>
          if p = [] then (Inr (RunText ''[No Photo]''), fs)
          else (case process_passport_photo detect p processed_photo fs of
              (Inl e, fs1) \<Rightarrow> (Inl e, fs1)
            | (Inr ok, fs1) \<Rightarrow>
                if ok then
                  (case add_picture embeddable fs1 processed_photo of
                     Inl e \<Rightarrow> (Inl e, fs1)
                   | Inr pic \<Rightarrow>
                       (Inr pic,
                        if path_exists fs1 processed_photo then fs1(processed_photo := None)
                        else fs1))
                else (Inr (RunText ''[No Photo]''), fs1)))"

text \<open>One data row, lines 131 to 135: indexing a row shorter than four cells raises.\<close>

definition data_row :: "string list \<Rightarrow> exn + (string \<times> bool) list" where
  "data_row edu_row =
     (if length edu_row < 4 then Inl IndexError
      else Inr [(edu_row ! 0, False), (edu_row ! 1, False),
                (edu_row ! 2, False), (edu_row ! 3, False)])"

fun data_rows :: "string list list \<Rightarrow> exn + (string \<times> bool) list list" where
  "data_rows [] = Inr []"
| "data_rows (edu_row # rest) =
     (case data_row edu_row of
        Inl e \<Rightarrow> Inl e
      | Inr cells \<Rightarrow> (case data_rows rest of Inl e \<Rightarrow> Inl e | Inr others \<Rightarrow> Inr (cells # others)))"

definition header_row :: "(string \<times> bool) list" where
  "header_row = map (\<lambda>h_text. (h_text, True)) headers"

text \<open>The body of the loop over \<^verbatim>\<open>personal_info.items()\<close>, lines 108 to 142: the blocks
  one field appends.\<close>

definition render_section :: "string \<times> pyval \<Rightarrow> exn + block list" where
  "render_section item = (case item of (section, content) \<Rightarrow>
     if section \<in> set ignore_keys \<or> content = PyStr ''NA'' \<or> falsy content then Inr []
     else if section = ''Education'' \<and> is_list content then
       (case data_rows (list_items content) of
          Inl e \<Rightarrow> Inl e
        | Inr rs \<Rightarrow> Inr [Heading (upper section), TableGrid (header_row # rs), Spacer])
     else
       Inr [Heading (upper section),
            Paragraph (py_str content)
              (if CHR 0x0A \<in> set (py_str content) then ListBullet else Normal)])"

fun render_sections :: "profile \<Rightarrow> exn + block list" where
  "render_sections [] = Inr []"
| "render_sections (item # items) =
     (case render_section item of
        Inl e \<Rightarrow> Inl e
      | Inr bs \<Rightarrow>
          (case render_sections items of Inl e \<Rightarrow> Inl e | Inr others \<Rightarrow> Inr (bs @ others)))"

text \<open>Line 145; \<^verbatim>\<open>.replace\<close> exists on strings only.\<close>

definition output_filename :: "profile \<Rightarrow> exn + string" where
  "output_filename personal_info =
     (case dict_get personal_info ''Full Name'' (PyStr ''Resume'') of
        PyStr s \<Rightarrow> Inr (replace_spaces s @ ''_Resume.docx'')
      | PyList rs \<Rightarrow> Inl AttributeError)"

text \<open>
  \<^verbatim>\<open>generate_resume(personal_info, photo_path)\<close>: the document it saves, or the exception
  that ends it, and the file system it leaves behind. The exceptions modelled are those of
  the program's own steps and of the photo; \<^verbatim>\<open>doc.save\<close> is taken to succeed and the
  document writer to accept every text, so a file name that cannot be created or a text
  with a control character, on which the program raises, is outside this model.
\<close>

definition generate_resume ::
  "(image \<Rightarrow> box list) \<Rightarrow> (image \<Rightarrow> bool) \<Rightarrow> profile \<Rightarrow> string option \<Rightarrow> filesystem
     \<Rightarrow> (exn + block list) \<times> filesystem" where
  "generate_resume detect embeddable personal_info photo_path fs =
     (case name_run personal_info of
        Inl e \<Rightarrow> (Inl e, fs)
      | Inr name \<Rightarrow>
          (let contacts = contact_paragraphs personal_info contact_keys
           in case photo_cell detect embeddable photo_path fs of
                (Inl e, fs1) \<Rightarrow> (Inl e, fs1)
              | (Inr photo, fs1) \<Rightarrow>
                  (case render_sections personal_info of
                     Inl e \<Rightarrow> (Inl e, fs1)
                   | Inr sections \<Rightarrow>
                       (case output_filename personal_info of
                          Inl e \<Rightarrow> (Inl e, fs1)
                        | Inr output_name \<Rightarrow>
                            (let doc = [HeaderTable name contacts photo, Spacer] @ sections
                             in (Inr doc, fs1(output_name \<mapsto> DocFile doc)))))))"

text \<open>The texts of the section headings of a document, in order.\<close>

fun headings :: "block list \<Rightarrow> string list" where
  "headings [] = []"
| "headings (Heading t # bs) = t # headings bs"
| "headings (b # bs) = headings bs"

text \<open>The presence test of the dynamic sections, line 109.\<close>

definition rendered :: "string \<times> pyval \<Rightarrow> bool" where
  "rendered item = (case item of (section, content) \<Rightarrow>
     section \<notin> set ignore_keys \<and> content \<noteq> PyStr ''NA'' \<and> \<not> falsy content)"

text \<open>The photo run of a document's header.\<close>

fun photo_of :: "block list \<Rightarrow> photo_run option" where
  "photo_of (HeaderTable name contacts photo # bs) = Some photo"
| "photo_of bs = None"


subsection \<open>The photo normaliser\<close>

lemma slice_len_inside:
  "0 \<le> a \<Longrightarrow> a \<le> b \<Longrightarrow> b \<le> int n \<Longrightarrow> slice_len n a b = nat (b - a)"
  by (simp add: slice_len_def slice_bound_def)

lemma imread_exists: "imread fs p = Some img \<Longrightarrow> path_exists fs p"
  by (auto simp: imread_def path_exists_def split: option.splits)

lemma process_nonempty_crop:
  assumes "imread fs input_path = Some img"
    and "rows (crop img (crop_rect (detect img) img)) \<noteq> 0"
    and "cols (crop img (crop_rect (detect img) img)) \<noteq> 0"
  shows "process_passport_photo detect input_path output_path fs =
           (Inr True, fs(output_path \<mapsto> ImageFile passport_size))"
  using assms imread_exists [OF assms(1)]
  by (simp add: process_passport_photo_def resize_def passport_size_def Let_def)

lemma floor_quarter: "\<lfloor>real n / 4\<rfloor> = int n div 4"
  using floor_divide_of_int_eq [of "int n" 4, where ?'a = real] by simp

lemma floor_three_quarters: "\<lfloor>3 * real n / 4\<rfloor> = (int n * 3) div 4"
  using floor_divide_of_int_eq [of "int n * 3" 4, where ?'a = real]
  by (simp add: mult.commute)

lemma face_rect_inside:
  assumes "box_in_image img b"
  shows "case face_rect img b of (y1, y2, x1, x2) \<Rightarrow>
           0 \<le> y1 \<and> y1 < y2 \<and> y2 \<le> int (rows img) \<and>
           0 \<le> x1 \<and> x1 < x2 \<and> x2 \<le> int (cols img)"
proof (cases b)
  case (fields x y w h)
  with assms have box: "0 \<le> x" "0 \<le> y" "0 < w" "0 < h"
      "x + w \<le> int (cols img)" "y + h \<le> int (rows img)"
    by (simp_all add: box_in_image_def)
  have pads: "0 \<le> h div 2" "0 \<le> w * 3 div 10"
    using box by simp_all
  show ?thesis
    using box pads fields by (simp add: face_rect_def int_scale_def Let_def) linarith
qed

lemma face_crop_nonempty:
  assumes "box_in_image img b"
  shows "rows (crop img (face_rect img b)) \<noteq> 0 \<and> cols (crop img (face_rect img b)) \<noteq> 0"
  using face_rect_inside [OF assms]
  by (auto simp: crop_def slice_len_inside split: prod.splits)

lemma fallback_crop_nonempty:
  assumes "0 < rows img" and "2 \<le> cols img"
  shows "rows (crop img (fallback_rect img)) \<noteq> 0 \<and> cols (crop img (fallback_rect img)) \<noteq> 0"
proof -
  have band: "0 \<le> int (cols img) div 4" "int (cols img) div 4 < int (cols img) * 3 div 4"
      "int (cols img) * 3 div 4 \<le> int (cols img)"
    using assms by linarith+
  show ?thesis
    using assms band
    by (simp add: fallback_rect_def Let_def crop_def int_scale_def slice_len_inside)
qed

text \<open>
  Where the normaliser does succeed without a face: every decoded image at least two
  pixels wide.
\<close>

lemma fallback_succeeds:
  assumes "imread fs input_path = Some img" and "detect img = []"
    and "0 < rows img" and "2 \<le> cols img"
  shows "process_passport_photo detect input_path output_path fs =
           (Inr True, fs(output_path \<mapsto> ImageFile passport_size))"
  using fallback_crop_nonempty [OF assms(3,4)] assms(2)
  by (intro process_nonempty_crop [OF assms(1)]) (simp_all add: crop_rect_def)

text \<open>
  C3, on a photo one pixel wide in which no face is found: the fallback band is the
  column range from \<open>int(0.25)\<close> to \<open>int(0.75)\<close>, both 0, so the crop is empty,
  \<^verbatim>\<open>cv2.resize\<close> raises, and nothing is written.
\<close>

theorem normalize_raises_on_width_one:
  "process_passport_photo (\<lambda>img. []) ''photo.png'' ''out.jpg''
     (Map.empty(''photo.png'' \<mapsto> ImageFile \<lparr>rows = 531, cols = 1\<rparr>))
   = (Inl CvError, Map.empty(''photo.png'' \<mapsto> ImageFile \<lparr>rows = 531, cols = 1\<rparr>))"
  by (simp add: process_passport_photo_def path_exists_def imread_def crop_rect_def
      fallback_rect_def int_scale_def crop_def slice_len_def slice_bound_def resize_def Let_def)

text \<open>
  C6: when the detector returns at least one box, the crop rectangle is the first box
  padded by half its height above and below and by three tenths of its width on either
  side, clamped to the image: it has no negative coordinate, does not pass the right or
  bottom edge, and is not empty. The file written is 413 pixels wide and 531 high.
\<close>

theorem face_crop_clamped_and_resized:
  assumes "imread fs input_path = Some img"
    and "detect img = b # bs"
    and "box_in_image img b"
  shows "crop_rect (detect img) img =
           (case b of (x, y, w, h) \<Rightarrow>
              (max 0 (y - h div 2), min (int (rows img)) (y + h + h div 2),
               max 0 (x - (w * 3) div 10), min (int (cols img)) (x + w + (w * 3) div 10)))
         \<and> (case crop_rect (detect img) img of (y1, y2, x1, x2) \<Rightarrow>
              0 \<le> y1 \<and> y1 < y2 \<and> y2 \<le> int (rows img) \<and>
              0 \<le> x1 \<and> x1 < x2 \<and> x2 \<le> int (cols img))
         \<and> process_passport_photo detect input_path output_path fs =
              (Inr True, fs(output_path \<mapsto> ImageFile \<lparr>rows = 531, cols = 413\<rparr>))"
proof -
  have rect: "crop_rect (detect img) img = face_rect img b"
    using assms(2) by (simp add: crop_rect_def)
  have padded: "face_rect img b =
      (case b of (x, y, w, h) \<Rightarrow>
         (max 0 (y - h div 2), min (int (rows img)) (y + h + h div 2),
          max 0 (x - (w * 3) div 10), min (int (cols img)) (x + w + (w * 3) div 10)))"
    using assms(3)
    by (cases b) (simp add: face_rect_def box_in_image_def int_scale_def Let_def)
  have written: "process_passport_photo detect input_path output_path fs =
      (Inr True, fs(output_path \<mapsto> ImageFile passport_size))"
    using face_crop_nonempty [OF assms(3)]
    by (intro process_nonempty_crop [OF assms(1)]) (simp_all add: rect)
  show ?thesis
    using rect padded face_rect_inside [OF assms(3)] written
    by (simp add: passport_size_def)
qed

theorem face_crop_clamped_and_resized_witness:
  "imread (Map.empty(''me.png'' \<mapsto> ImageFile \<lparr>rows = 100, cols = 100\<rparr>)) ''me.png''
     = Some \<lparr>rows = 100, cols = 100\<rparr>
   \<and> box_in_image \<lparr>rows = 100, cols = 100\<rparr> (10, 10, 30, 30)
   \<and> crop_rect [(10, 10, 30, 30)] \<lparr>rows = 100, cols = 100\<rparr> = (0, 55, 1, 49)
   \<and> process_passport_photo (\<lambda>img. [(10, 10, 30, 30)]) ''me.png'' ''out.jpg''
        (Map.empty(''me.png'' \<mapsto> ImageFile \<lparr>rows = 100, cols = 100\<rparr>))
      = (Inr True, (Map.empty(''me.png'' \<mapsto> ImageFile \<lparr>rows = 100, cols = 100\<rparr>))
                     (''out.jpg'' \<mapsto> ImageFile \<lparr>rows = 531, cols = 413\<rparr>))"
proof -
  have decoded: "imread (Map.empty(''me.png'' \<mapsto> ImageFile \<lparr>rows = 100, cols = 100\<rparr>)) ''me.png''
      = Some \<lparr>rows = 100, cols = 100\<rparr>"
    by (simp add: imread_def)
  have inside: "box_in_image \<lparr>rows = 100, cols = 100\<rparr> (10, 10, 30, 30)"
    by (simp add: box_in_image_def)
  show ?thesis
    using face_crop_clamped_and_resized [OF decoded _ inside,
        of "\<lambda>img. [(10, 10, 30, 30)]" "[]" "''out.jpg''"] decoded inside
    by simp
qed

text \<open>
  C7: when the detector returns no box, the crop rectangle spans every row of the image
  and the columns from a quarter to three quarters of the width, each bound truncated to
  a whole pixel as \<^verbatim>\<open>int(w*0.25)\<close> and \<^verbatim>\<open>int(w*0.75)\<close> do.
\<close>

theorem fallback_crop_band:
  assumes "detect img = []"
  shows "crop_rect (detect img) img =
           (0, int (rows img), \<lfloor>real (cols img) / 4\<rfloor>, \<lfloor>3 * real (cols img) / 4\<rfloor>)
         \<and> crop img (crop_rect (detect img) img) =
           \<lparr>rows = rows img,
            cols = nat (\<lfloor>3 * real (cols img) / 4\<rfloor> - \<lfloor>real (cols img) / 4\<rfloor>)\<rparr>"
proof -
  have band: "0 \<le> int (cols img) div 4" "int (cols img) div 4 \<le> int (cols img) * 3 div 4"
      "int (cols img) * 3 div 4 \<le> int (cols img)"
    by linarith+
  show ?thesis
    using assms band
    by (simp add: crop_rect_def fallback_rect_def Let_def crop_def int_scale_def
        slice_len_inside floor_quarter floor_three_quarters)
qed

theorem fallback_crop_band_witness:
  "crop_rect [] \<lparr>rows = 600, cols = 401\<rparr> = (0, 600, 100, 300)
   \<and> crop \<lparr>rows = 600, cols = 401\<rparr> (crop_rect [] \<lparr>rows = 600, cols = 401\<rparr>)
      = \<lparr>rows = 600, cols = 200\<rparr>"
proof -
  have bounds: "\<lfloor>real (cols \<lparr>rows = 600, cols = 401\<rparr>) / 4\<rfloor> = 100"
    "\<lfloor>3 * real (cols \<lparr>rows = 600, cols = 401\<rparr>) / 4\<rfloor> = 300"
    "rows \<lparr>rows = 600, cols = 401\<rparr> = 600"
    by simp_all
  have width: "nat (300 - 100) = 200"
    by simp
  show ?thesis
    using fallback_crop_band [of "\<lambda>img. []" "\<lparr>rows = 600, cols = 401\<rparr>"]
    unfolding bounds width of_nat_numeral by blast
qed

subsection \<open>The document assembler: rows and headings\<close>

lemma four_cells: "4 \<le> length r \<Longrightarrow> \<exists>a b c d rest. r = a # b # c # d # rest"
  by (auto simp: numeral_eq_Suc Suc_le_length_iff)

lemma data_row_wide:
  assumes "4 \<le> length r"
  shows "data_row r = Inr (map (\<lambda>c. (c, False)) (take 4 r))"
proof -
  obtain a b c d rest where "r = a # b # c # d # rest"
    using assms four_cells by blast
  then show ?thesis
    by (simp add: data_row_def numeral_eq_Suc)
qed

lemma data_rows_wide:
  "list_all (\<lambda>r. 4 \<le> length r) rs \<Longrightarrow>
     data_rows rs = Inr (map (\<lambda>r. map (\<lambda>c. (c, False)) (take 4 r)) rs)"
  by (induction rs) (simp_all add: data_row_wide)

lemma headings_append: "headings (as @ bs) = headings as @ headings bs"
  by (induction as rule: headings.induct) simp_all

lemma headings_section:
  "render_section item = Inr bs \<Longrightarrow>
     headings bs = (if rendered item then [upper (fst item)] else [])"
  by (cases item) (auto simp: render_section_def rendered_def split: if_splits sum.splits)

lemma headings_sections:
  "render_sections info = Inr secs \<Longrightarrow>
     headings secs = map (upper \<circ> fst) (filter rendered info)"
proof (induction info arbitrary: secs)
  case Nil
  then show ?case by simp
next
  case (Cons item items)
  then show ?case
    by (auto simp: headings_append headings_section split: sum.splits)
qed



lemma generate_resume_doc:
  assumes "fst (generate_resume detect embeddable info photo fs) = Inr doc"
  shows "\<exists>name ph secs.
           doc = [HeaderTable name (contact_paragraphs info contact_keys) ph, Spacer] @ secs
           \<and> render_sections info = Inr secs
           \<and> fst (photo_cell detect embeddable photo fs) = Inr ph"
  using assms
  by (auto simp: generate_resume_def Let_def split: sum.splits prod.splits)






text \<open>
  C9: the section headings of the saved document are the names, in upper case, of exactly
  the fields that are not header fields and pass the presence test of line 109, in the order
  in which the record lists them.
\<close>

theorem section_headings_stable_filter:
  assumes "fst (generate_resume detect embeddable info photo fs) = Inr doc"
  shows "headings doc = map (upper \<circ> fst) (filter rendered info)"
  using generate_resume_doc [OF assms] by (auto simp: headings_sections)

theorem section_headings_stable_filter_witness:
  "fst (generate_resume (\<lambda>img. []) (\<lambda>img. True)
      [(''Full Name'', PyStr ''Jane Doe''), (''Email'', PyStr ''jane@x.com''),
       (''Skills'', PyStr ''Go''), (''Objective'', PyStr ''NA''),
       (''Education'', PyList [[''B.Tech'', ''State U'', ''2020'', ''8.5'']]),
       (''Experience'', PyStr [])] None Map.empty)
    = Inr [HeaderTable ''Jane Doe'' [''jane@x.com''] (RunText ''[No Photo]''), Spacer,
           Heading ''SKILLS'', Paragraph ''Go'' Normal,
           Heading ''EDUCATION'',
           TableGrid [[(''Degree/Course'', True), (''Institution'', True), (''Year'', True),
                       (''Grade/CGPA'', True)],
                      [(''B.Tech'', False), (''State U'', False), (''2020'', False),
                       (''8.5'', False)]],
           Spacer]
   \<and> headings [HeaderTable ''Jane Doe'' [''jane@x.com''] (RunText ''[No Photo]''), Spacer,
           Heading ''SKILLS'', Paragraph ''Go'' Normal,
           Heading ''EDUCATION'',
           TableGrid [[(''Degree/Course'', True), (''Institution'', True), (''Year'', True),
                       (''Grade/CGPA'', True)],
                      [(''B.Tech'', False), (''State U'', False), (''2020'', False),
                       (''8.5'', False)]],
           Spacer]
     = map (upper \<circ> fst) (filter rendered
      [(''Full Name'', PyStr ''Jane Doe''), (''Email'', PyStr ''jane@x.com''),
       (''Skills'', PyStr ''Go''), (''Objective'', PyStr ''NA''),
       (''Education'', PyList [[''B.Tech'', ''State U'', ''2020'', ''8.5'']]),
       (''Experience'', PyStr [])])"
proof -
  have run: "fst (generate_resume (\<lambda>img. []) (\<lambda>img. True)
      [(''Full Name'', PyStr ''Jane Doe''), (''Email'', PyStr ''jane@x.com''),
       (''Skills'', PyStr ''Go''), (''Objective'', PyStr ''NA''),
       (''Education'', PyList [[''B.Tech'', ''State U'', ''2020'', ''8.5'']]),
       (''Experience'', PyStr [])] None Map.empty)
    = Inr [HeaderTable ''Jane Doe'' [''jane@x.com''] (RunText ''[No Photo]''), Spacer,
           Heading ''SKILLS'', Paragraph ''Go'' Normal,
           Heading ''EDUCATION'',
           TableGrid [[(''Degree/Course'', True), (''Institution'', True), (''Year'', True),
                       (''Grade/CGPA'', True)],
                      [(''B.Tech'', False), (''State U'', False), (''2020'', False),
                       (''8.5'', False)]],
           Spacer]"
    by code_simp
  show ?thesis
    using section_headings_stable_filter [OF run] run by blast
qed

subsection \<open>The education table and list-valued fields\<close>

lemma render_sections_append:
  "render_sections (xs @ ys) =
     (case render_sections xs of
        Inl e \<Rightarrow> Inl e
      | Inr as \<Rightarrow> (case render_sections ys of Inl e \<Rightarrow> Inl e | Inr bs \<Rightarrow> Inr (as @ bs)))"
  by (induction xs) (auto split: sum.splits)

lemma render_section_empty_list: "render_section (k, PyList []) = Inr []"
  by (simp add: render_section_def)

lemma render_sections_skip_empty:
  "render_sections (xs @ (k, PyList []) # ys) = render_sections (xs @ ys)"
  by (simp add: render_sections_append render_section_empty_list split: sum.splits)

lemma dict_get_other:
  "k' \<noteq> k \<Longrightarrow> dict_get (xs @ (k, v) # ys) k' d = dict_get (xs @ ys) k' d"
  by (simp add: dict_get_def map_add_def split: option.splits)

lemma contact_paragraphs_other:
  "k \<notin> set keys \<Longrightarrow>
     contact_paragraphs (xs @ (k, v) # ys) keys = contact_paragraphs (xs @ ys) keys"
  by (induction keys) (auto simp: dict_get_other Let_def)







text \<open>
  C8: a rendered education field whose value is a list of N rows of four cells becomes a
  table of N+1 rows: the bold header row Degree/Course, Institution, Year, Grade/CGPA, then
  the data rows in list order, each with its four cells copied unchanged and in order.
\<close>

theorem education_table_rows:
  assumes "rs \<noteq> []" and "\<forall>row \<in> set rs. length row = 4"
  shows "render_section (''Education'', PyList rs) =
           Inr [Heading ''EDUCATION'',
                TableGrid (header_row # map (map (\<lambda>c. (c, False))) rs), Spacer]
       \<and> length (header_row # map (map (\<lambda>c. (c, False))) rs) = length rs + 1
       \<and> (\<forall>row \<in> set (header_row # map (map (\<lambda>c. (c, False))) rs). length row = 4)
       \<and> header_row = [(''Degree/Course'', True), (''Institution'', True),
                        (''Year'', True), (''Grade/CGPA'', True)]"
proof -
  have wide: "list_all (\<lambda>r. 4 \<le> length r) rs"
    using assms(2) by (simp add: list_all_iff)
  have same: "map (\<lambda>r. map (\<lambda>c. (c, False)) (take 4 r)) rs = map (map (\<lambda>c. (c, False))) rs"
    using assms(2) by simp
  have up: "upper ''Education'' = ''EDUCATION''"
    by code_simp
  have hdr: "header_row = [(''Degree/Course'', True), (''Institution'', True),
                        (''Year'', True), (''Grade/CGPA'', True)]"
    by (simp add: header_row_def headers_def)
  have sec: "render_section (''Education'', PyList rs) =
           Inr [Heading ''EDUCATION'',
                TableGrid (header_row # map (map (\<lambda>c. (c, False))) rs), Spacer]"
    using assms(1) by (simp add: render_section_def ignore_keys_def data_rows_wide [OF wide] same up)
  have len: "length header_row = 4"
    by (simp add: hdr)
  show ?thesis
    using sec hdr len assms(2) by simp
qed

theorem education_table_rows_witness:
  "render_section (''Education'',
       PyList [[''B.Tech'', ''State U'', ''2020'', ''8.5''], [''M.Sc'', ''City U'', ''2022'', ''9.1'']])
   = Inr [Heading ''EDUCATION'',
          TableGrid [[(''Degree/Course'', True), (''Institution'', True), (''Year'', True),
                      (''Grade/CGPA'', True)],
                     [(''B.Tech'', False), (''State U'', False), (''2020'', False), (''8.5'', False)],
                     [(''M.Sc'', False), (''City U'', False), (''2022'', False), (''9.1'', False)]],
          Spacer]"
  using education_table_rows [of "[[''B.Tech'', ''State U'', ''2020'', ''8.5''], [''M.Sc'', ''City U'', ''2022'', ''9.1'']]"]
  by simp

text \<open>
  C10: a field whose value is the empty list appends no block at all (no heading, no
  table), the sections are those of the record without the field, and when the field is
  not one the header reads, the whole run is the run on the record without it.
\<close>

theorem empty_list_field_skipped:
  "render_section (k, PyList []) = Inr []
   \<and> render_sections (xs @ (k, PyList []) # ys) = render_sections (xs @ ys)
   \<and> (k \<notin> set (''Full Name'' # contact_keys) \<longrightarrow>
        generate_resume detect embeddable (xs @ (k, PyList []) # ys) photo fs
          = generate_resume detect embeddable (xs @ ys) photo fs)"
proof -
  have "generate_resume detect embeddable (xs @ (k, PyList []) # ys) photo fs
          = generate_resume detect embeddable (xs @ ys) photo fs"
    if "k \<notin> set (''Full Name'' # contact_keys)"
  proof -
    have name: "''Full Name'' \<noteq> k" and keys: "k \<notin> set contact_keys"
      using that by auto
    show ?thesis
      by (simp only: generate_resume_def name_run_def output_filename_def
          dict_get_other [OF name] contact_paragraphs_other [OF keys]
          render_sections_skip_empty)
  qed
  then show ?thesis
    by (simp add: render_section_empty_list render_sections_skip_empty)
qed

theorem empty_list_field_skipped_witness:
  "''Education'' \<notin> set (''Full Name'' # contact_keys)
   \<and> render_section (''Education'', PyList []) = Inr []
   \<and> generate_resume (\<lambda>img. []) (\<lambda>img. True)
        [(''Full Name'', PyStr ''Jane Doe''), (''Education'', PyList []), (''Skills'', PyStr ''Go'')]
        None Map.empty
      = generate_resume (\<lambda>img. []) (\<lambda>img. True)
        [(''Full Name'', PyStr ''Jane Doe''), (''Skills'', PyStr ''Go'')] None Map.empty"
proof -
  have other: "''Education'' \<notin> set (''Full Name'' # contact_keys)"
    by (simp add: contact_keys_def)
  show ?thesis
    using empty_list_field_skipped [of "''Education''" "[(''Full Name'', PyStr ''Jane Doe'')]"
        "[(''Skills'', PyStr ''Go'')]" "\<lambda>img. []" "\<lambda>img. True" None Map.empty] other
    by simp
qed




subsection \<open>The transient photo file and the contact lines\<close>

lemma process_other_paths:
  "q \<noteq> out \<Longrightarrow> snd (process_passport_photo detect p out fs) q = fs q"
  by (simp add: process_passport_photo_def Let_def split: option.splits sum.splits)

lemma process_not_written:
  "fst (process_passport_photo detect p out fs) \<noteq> Inr True \<Longrightarrow>
     snd (process_passport_photo detect p out fs) = fs"
  by (auto simp: process_passport_photo_def Let_def split: option.splits sum.splits if_splits)

lemma process_written:
  "fst (process_passport_photo detect p out fs) = Inr True \<Longrightarrow>
     snd (process_passport_photo detect p out fs) = fs(out \<mapsto> ImageFile passport_size)"
  by (auto simp: process_passport_photo_def Let_def resize_def passport_size_def
      split: option.splits sum.splits if_splits)

lemma photo_cell_removes:
  assumes "embeddable passport_size" and "fs processed_photo = None"
  shows "snd (photo_cell detect embeddable photo_path fs) processed_photo = None"
proof (cases "process_passport_photo detect (the photo_path) processed_photo fs")
  case (Pair r fs1)
  show ?thesis
  proof (cases "r = Inr True")
    case True
    then have "fs1 = fs(processed_photo \<mapsto> ImageFile passport_size)"
      using process_written [of detect "the photo_path" processed_photo fs] Pair by simp
    then show ?thesis
      using assms Pair True
      by (auto simp: photo_cell_def add_picture_def imread_def path_exists_def
          split: option.splits)
  next
    case False
    then have "fs1 = fs"
      using process_not_written [of detect "the photo_path" processed_photo fs] Pair by simp
    then show ?thesis
      using assms Pair False
      by (cases r) (auto simp: photo_cell_def split: option.splits)
  qed
qed

lemma output_not_temp: "output_filename info = Inr out \<Longrightarrow> out \<noteq> processed_photo"
proof -
  assume "output_filename info = Inr out"
  then obtain s where "out = s @ ''_Resume.docx''"
    by (auto simp: output_filename_def split: pyval.splits)
  then have "last out = CHR ''x''" by simp
  moreover have "last processed_photo = CHR ''g''"
    by (simp add: processed_photo_def)
  ultimately show ?thesis by auto
qed

lemma contact_paragraphs_filter:
  "contact_paragraphs info keys =
     map py_str (filter (\<lambda>val. val \<noteq> PyStr ''NA'') (map (\<lambda>key. dict_get info key (PyStr ''NA'')) keys))"
  by (induction keys) (simp_all add: Let_def)

text \<open>
  C2, as it fails: the photo is read and normalised, the temporary file is written, and
  \<^verbatim>\<open>add_picture\<close> raises; the call ends with that exception and the temporary file, absent
  before the call, is still there.
\<close>

theorem transient_photo_left_when_embedding_fails:
  "(Map.empty(''me.png'' \<mapsto> ImageFile \<lparr>rows = 600, cols = 400\<rparr>)) processed_photo = None
   \<and> fst (generate_resume (\<lambda>img. []) (\<lambda>img. False) [(''Full Name'', PyStr ''Jane Doe'')]
        (Some ''me.png'') (Map.empty(''me.png'' \<mapsto> ImageFile \<lparr>rows = 600, cols = 400\<rparr>)))
      = Inl ImageError
   \<and> snd (generate_resume (\<lambda>img. []) (\<lambda>img. False) [(''Full Name'', PyStr ''Jane Doe'')]
        (Some ''me.png'') (Map.empty(''me.png'' \<mapsto> ImageFile \<lparr>rows = 600, cols = 400\<rparr>)))
        processed_photo
      = Some (ImageFile \<lparr>rows = 531, cols = 413\<rparr>)"
  by (simp add: generate_resume_def name_run_def dict_get_def photo_cell_def
      process_passport_photo_def path_exists_def imread_def crop_rect_def fallback_rect_def
      int_scale_def crop_def slice_len_def slice_bound_def resize_def add_picture_def
      processed_photo_def Let_def)

text \<open>
  C2, amended: if the temporary file is absent before the call and \<^verbatim>\<open>add_picture\<close> accepts
  the normalised photo, the temporary file is absent after the call, on every path: no
  photo given, photo unreadable, the normaliser raising, the picture embedded, and any
  later exception of the assembly.
\<close>

theorem transient_photo_removed_unless_embedding_fails:
  assumes "embeddable passport_size" and "fs processed_photo = None"
  shows "snd (generate_resume detect embeddable info photo_path fs) processed_photo = None"
  using photo_cell_removes [of embeddable fs detect photo_path] assms
  by (auto simp: generate_resume_def Let_def dest: output_not_temp
      split: sum.splits prod.splits)

theorem transient_photo_removed_unless_embedding_fails_witness:
  "(Map.empty(''me.png'' \<mapsto> ImageFile \<lparr>rows = 600, cols = 400\<rparr>)) processed_photo = None
   \<and> snd (generate_resume (\<lambda>img. []) (\<lambda>img. True) [(''Full Name'', PyStr ''Jane Doe'')]
        (Some ''me.png'') (Map.empty(''me.png'' \<mapsto> ImageFile \<lparr>rows = 600, cols = 400\<rparr>)))
        processed_photo = None
   \<and> photo_of (projr (fst (generate_resume (\<lambda>img. []) (\<lambda>img. True) [(''Full Name'', PyStr ''Jane Doe'')]
        (Some ''me.png'') (Map.empty(''me.png'' \<mapsto> ImageFile \<lparr>rows = 600, cols = 400\<rparr>)))))
      = Some (Picture \<lparr>rows = 531, cols = 413\<rparr>)"
proof -
  have absent: "(Map.empty(''me.png'' \<mapsto> ImageFile \<lparr>rows = 600, cols = 400\<rparr>)) processed_photo = None"
    by (simp add: processed_photo_def)
  have pic: "photo_of (projr (fst (generate_resume (\<lambda>img. []) (\<lambda>img. True) [(''Full Name'', PyStr ''Jane Doe'')]
        (Some ''me.png'') (Map.empty(''me.png'' \<mapsto> ImageFile \<lparr>rows = 600, cols = 400\<rparr>)))))
      = Some (Picture \<lparr>rows = 531, cols = 413\<rparr>)"
    by (simp add: generate_resume_def name_run_def dict_get_def photo_cell_def
      process_passport_photo_def path_exists_def imread_def crop_rect_def fallback_rect_def
      int_scale_def crop_def slice_len_def slice_bound_def resize_def add_picture_def
      processed_photo_def output_filename_def render_section_def ignore_keys_def Let_def)
  show ?thesis
    using transient_photo_removed_unless_embedding_fails [of "\<lambda>img. True" "Map.empty(''me.png'' \<mapsto> ImageFile \<lparr>rows = 600, cols = 400\<rparr>)"
        "\<lambda>img. []" "[(''Full Name'', PyStr ''Jane Doe'')]" "Some ''me.png''"] absent pic
    by simp
qed

text \<open>
  C4, on a record whose Email is the empty string: the test of line 85 compares with
  \<^verbatim>\<open>"NA"\<close> only, so an empty contact paragraph is added to the header.
\<close>

theorem empty_email_emits_contact_line:
  "fst (generate_resume (\<lambda>img. []) (\<lambda>img. True)
      [(''Full Name'', PyStr ''Jane Doe''), (''Email'', PyStr [])] None Map.empty)
    = Inr [HeaderTable ''Jane Doe'' [[]] (RunText ''[No Photo]''), Spacer]"
  by (simp add: generate_resume_def name_run_def dict_get_def photo_cell_def
      contact_keys_def render_section_def ignore_keys_def output_filename_def Let_def)

end
